theory Spec2Isabelle
  imports Complex_Main
begin

section \<open>Python values used by the pipeline\<close>

text \<open>
  The three services of \<^verbatim>\<open>scripts/cannect-intel-v2/classifier\<close> (\<^verbatim>\<open>sync.py\<close>,
  \<^verbatim>\<open>classifier_parallel.py\<close>, \<^verbatim>\<open>build_profiles.py\<close>) hand data to each other through
  the PostgreSQL tables \<^verbatim>\<open>posts\<close>, \<^verbatim>\<open>post_classifications\<close> and \<^verbatim>\<open>user_profiles\<close>.
  A table is a list of rows, a row is a record, a nullable column is an \<open>option\<close>,
  and a Python exception is the left summand of a sum type.

  Timestamps are integers (microseconds on the time line), so that the difference of two
  of them is Python's \<^verbatim>\<open>timedelta\<close>. Python's \<^verbatim>\<open>float\<close> results are rational numbers:
  the model computes the exact quotient where Python rounds to a double.
\<close>

datatype py_error = IndexError

type_synonym timestamp = int

definition truthy_str :: "string option \<Rightarrow> bool" where
  \<comment> \<open>Python truth of a text value: \<^verbatim>\<open>None\<close> and the empty string are false.\<close>
  "truthy_str v = (v \<noteq> None \<and> v \<noteq> Some [])"

definition py_int :: "rat \<Rightarrow> int" where
  \<comment> \<open>\<^verbatim>\<open>int(x)\<close> on a float: truncation towards zero.\<close>
  "py_int q = (if q < 0 then \<lceil>q\<rceil> else \<lfloor>q\<rfloor>)"

definition round_half_even :: "rat \<Rightarrow> int" where
  "round_half_even q =
     (let f = \<lfloor>q\<rfloor>; d = q - of_int f
      in if d < 1 / 2 then f else if 1 / 2 < d then f + 1 else if even f then f else f + 1)"

definition py_round :: "rat \<Rightarrow> nat \<Rightarrow> rat" where
  \<comment> \<open>\<^verbatim>\<open>round(x, ndigits)\<close>: to the nearest multiple of \<open>10 ^ - ndigits\<close>, ties to even.\<close>
  "py_round q ndigits = of_int (round_half_even (q * 10 ^ ndigits)) / 10 ^ ndigits"

subsection \<open>\<^verbatim>\<open>collections.Counter\<close>\<close>

text \<open>
  A \<^verbatim>\<open>Counter\<close> is a dictionary from items to counts; Python dictionaries keep the order
  in which keys were first inserted, so it is an association list in first-seen order.
  \<^verbatim>\<open>most_common(n)\<close> is \<^verbatim>\<open>sorted(items, key=count, reverse=True)[:n]\<close>: a stable sort,
  so that items of the same count stay in first-seen order.
\<close>

fun counter_add :: "'a \<Rightarrow> ('a \<times> nat) list \<Rightarrow> ('a \<times> nat) list" where
  "counter_add x [] = [(x, 1)]"
| "counter_add x ((y, n) # r) = (if x = y then (y, Suc n) # r else (y, n) # counter_add x r)"

definition Counter :: "'a list \<Rightarrow> ('a \<times> nat) list" where
  "Counter xs = foldl (\<lambda>acc x. counter_add x acc) [] xs"

definition Counter_most_common :: "nat \<Rightarrow> ('a \<times> nat) list \<Rightarrow> ('a \<times> nat) list" where
  "Counter_most_common n cnt = take n (sort_key (\<lambda>e. - int (snd e)) cnt)"

section \<open>ProfileAggregator: \<^verbatim>\<open>build_profiles.py\<close>\<close>

text \<open>
  A row of \<^verbatim>\<open>get_user_classifications\<close>: the columns of \<^verbatim>\<open>post_classifications\<close> that
  \<^verbatim>\<open>build_user_profile\<close> reads, as psycopg2 returns them, with the key of the row.
  An array column is a list whose elements may be null. The joined \<^verbatim>\<open>post_created_at\<close>
  only orders the rows and is read from the post.
\<close>

record classification =
  post_id :: int
  model_version :: string
  consumer_type :: "string option"
  experience_level :: "string option"
  product_category :: "string option"
  sentiment :: "string option"
  sentiment_score :: "int option"
  purchase_intent :: "int option"
  effects_mentioned :: "string option list option"
  effects_desired :: "string option list option"
  lifestyle_tags :: "string option list option"
  frustrations :: "string option list option"
  emotions :: "string option list option"
  occasion :: "string option"

text \<open>A row of \<^verbatim>\<open>get_users_with_posts\<close> (the dictionary \<^verbatim>\<open>user\<close>).\<close>

record user_row =
  u_author_did :: string
  u_author_handle :: "string option"
  post_count :: int
  first_post :: "timestamp option"
  last_post :: "timestamp option"

definition most_common :: "string option list \<Rightarrow> string \<Rightarrow> string" where
  \<comment> \<open>The last case is never taken: the counter of a non-empty list is non-empty.\<close>
  "most_common items dflt =
     (let filtered = map the (filter (\<lambda>i. truthy_str i \<and> i \<noteq> Some ''unknown'') items)
      in if filtered = [] then dflt
         else (case Counter_most_common 1 (Counter filtered) of
                 (x, _) # _ \<Rightarrow> x
               | [] \<Rightarrow> dflt))"

definition flatten_arrays ::
  "classification list \<Rightarrow> (classification \<Rightarrow> string option list option) \<Rightarrow> string list" where
  "flatten_arrays classifications field =
     (let result = concat (map (\<lambda>c. case field c of
                                       None \<Rightarrow> []
                                     | Some xs \<Rightarrow> (if xs = [] then [] else xs)) classifications)
      in map the (filter truthy_str result))"

definition timedelta_days :: "timestamp \<Rightarrow> timestamp \<Rightarrow> int" where
  \<comment> \<open>\<^verbatim>\<open>(last_post - first_post).days\<close>: whole days, rounded towards minus infinity.\<close>
  "timedelta_days last_p first_p = (last_p - first_p) div 86400000000"

definition calculate_posting_frequency ::
  "timestamp option \<Rightarrow> timestamp option \<Rightarrow> int \<Rightarrow> string" where
  "calculate_posting_frequency first_p last_p pcount =
     (case (first_p, last_p) of
        (Some f, Some l) \<Rightarrow>
          (let days = timedelta_days l f
           in if days = 0 then ''burst''
              else (let posts_per_week = (of_int pcount / of_int days) * (7 :: rat)
                    in if 7 \<le> posts_per_week then ''daily''
                       else if 3 \<le> posts_per_week then ''several_weekly''
                       else if 1 \<le> posts_per_week then ''weekly''
                       else if 1 / 4 \<le> posts_per_week then ''monthly''
                       else ''occasional''))
      | _ \<Rightarrow> ''unknown'')"

text \<open>The local variables of \<^verbatim>\<open>build_user_profile\<close>, each under its own name.\<close>

definition sentiment_scores :: "classification list \<Rightarrow> int list" where
  "sentiment_scores cs = map the (filter (\<lambda>v. v \<noteq> None) (map sentiment_score cs))"

definition purchase_intents :: "classification list \<Rightarrow> int list" where
  "purchase_intents cs = map the (filter (\<lambda>v. v \<noteq> None) (map purchase_intent cs))"

definition avg_sentiment :: "classification list \<Rightarrow> rat" where
  "avg_sentiment cs =
     (if sentiment_scores cs = [] then 0
      else of_int (sum_list (sentiment_scores cs)) / of_nat (length (sentiment_scores cs)))"

definition avg_purchase_intent :: "classification list \<Rightarrow> rat" where
  "avg_purchase_intent cs =
     (if purchase_intents cs = [] then 0
      else of_int (sum_list (purchase_intents cs)) / of_nat (length (purchase_intents cs)))"

definition high_intent_count :: "classification list \<Rightarrow> int" where
  "high_intent_count cs = int (length (filter (\<lambda>p. 50 \<le> p) (purchase_intents cs)))"

definition top_items :: "nat \<Rightarrow> string list \<Rightarrow> string list" where
  \<comment> \<open>\<^verbatim>\<open>[x[0] for x in Counter(items).most_common(n)]\<close>\<close>
  "top_items n items = map fst (Counter_most_common n (Counter items))"

definition dispensary_score :: "user_row \<Rightarrow> classification list \<Rightarrow> int" where
  "dispensary_score user cs =
     min 100 (py_int (avg_purchase_intent cs * (1 / 2)
                      + of_int (high_intent_count cs * 10)
                      + of_int (post_count user * 2)))"

definition wellness_score :: "classification list \<Rightarrow> int" where
  "wellness_score cs =
     min 100 ((if most_common (map consumer_type cs) ''unknown'' \<in> set [''wellness'', ''medical'']
               then 50 else 0)
              + int (length (filter (\<lambda>e. e \<in> set [''relaxed'', ''calm'', ''sleep'', ''pain_relief''])
                               (flatten_arrays cs effects_mentioned))) * 10)"

definition premium_score :: "user_row \<Rightarrow> classification list \<Rightarrow> int" where
  "premium_score user cs =
     min 100 ((if most_common (map consumer_type cs) ''unknown'' = ''connoisseur'' then 50 else 0)
              + (if most_common (map experience_level cs) ''unknown'' \<in> set [''expert'', ''daily'']
                 then 30 else 0)
              + post_count user * 1)"

definition accessory_score :: "user_row \<Rightarrow> int" where
  "accessory_score user = min 100 (post_count user * 3)"

definition secondary_consumer_type :: "string option list \<Rightarrow> py_error + string option" where
  \<comment> \<open>The guard counts the distinct raw values; the ranking is over the filtered ones, and
      its index 1 is out of range when fewer than two of them are distinct.\<close>
  "secondary_consumer_type consumer_types =
     (if 1 < length (remdups consumer_types)
      then (case Counter_most_common 2
                   (Counter (map the (filter (\<lambda>c. truthy_str c \<and> c \<noteq> Some ''unknown'')
                                             consumer_types))) of
              _ # (x, _) # _ \<Rightarrow> Inr (Some x)
            | _ \<Rightarrow> Inl IndexError)
      else Inr None)"

text \<open>
  The profile dictionary. \<^verbatim>\<open>preferred_products\<close> (the first three elements of a Python
  \<^verbatim>\<open>set\<close>, whose order is that of the string hashes) and the four distributions of
  \<^verbatim>\<open>stats_json\<close> are left out: no other value of the profile is computed from them.
\<close>

record user_profile =
  p_author_did :: string
  p_author_handle :: "string option"
  p_first_seen_at :: "timestamp option"
  p_last_seen_at :: "timestamp option"
  p_posts_analyzed :: int
  p_primary_consumer_type :: string
  p_secondary_consumer_type :: "string option"
  p_experience_level :: string
  p_preferred_effects :: "string list"
  p_typical_occasions :: "string list"
  p_lifestyle_tags :: "string list"
  p_avg_sentiment :: rat
  p_posting_frequency :: string
  p_frustrations :: "string list"
  p_dispensary_target_score :: int
  p_wellness_brand_target_score :: int
  p_premium_product_target_score :: int
  p_accessory_target_score :: int
  p_stats_avg_purchase_intent :: rat
  p_stats_high_intent_posts :: int

definition build_user_profile :: "user_row \<Rightarrow> classification list \<Rightarrow> py_error + user_profile" where
  "build_user_profile user cs =
     (case secondary_consumer_type (map consumer_type cs) of
        Inl e \<Rightarrow> Inl e
      | Inr secondary \<Rightarrow> Inr \<lparr>
          p_author_did = u_author_did user,
          p_author_handle = u_author_handle user,
          p_first_seen_at = first_post user,
          p_last_seen_at = last_post user,
          p_posts_analyzed = post_count user,
          p_primary_consumer_type = most_common (map consumer_type cs) ''unknown'',
          p_secondary_consumer_type = secondary,
          p_experience_level = most_common (map experience_level cs) ''unknown'',
          p_preferred_effects = top_items 5 (flatten_arrays cs effects_mentioned),
          p_typical_occasions =
            top_items 3 (map the (filter truthy_str (map occasion cs))),
          p_lifestyle_tags = top_items 5 (flatten_arrays cs lifestyle_tags),
          p_avg_sentiment = py_round (avg_sentiment cs) 2,
          p_posting_frequency =
            calculate_posting_frequency (first_post user) (last_post user) (post_count user),
          p_frustrations = top_items 3 (flatten_arrays cs frustrations),
          p_dispensary_target_score = dispensary_score user cs,
          p_wellness_brand_target_score = wellness_score cs,
          p_premium_product_target_score = premium_score user cs,
          p_accessory_target_score = accessory_score user,
          p_stats_avg_purchase_intent = py_round (avg_purchase_intent cs) 1,
          p_stats_high_intent_posts = high_intent_count cs \<rparr>)"

section \<open>The tables\<close>

text \<open>
  JSON values as Python holds them after \<^verbatim>\<open>json.loads\<close>: a dictionary is an association
  list in insertion order with one entry for each key. (Floats do not occur in the values
  the pipeline computes with and are left out.)
\<close>

datatype pyval =
    PNone
  | PBool bool
  | PInt int
  | PStr string
  | PList "pyval list"
  | PDict "(string \<times> pyval) list"

type_synonym pydict = "(string \<times> pyval) list"

fun py_truthy :: "pyval \<Rightarrow> bool" where
  "py_truthy PNone = False"
| "py_truthy (PBool b) = b"
| "py_truthy (PInt i) = (i \<noteq> 0)"
| "py_truthy (PStr s) = (s \<noteq> [])"
| "py_truthy (PList xs) = (xs \<noteq> [])"
| "py_truthy (PDict d) = (d \<noteq> [])"

fun dict_set :: "string \<Rightarrow> pyval \<Rightarrow> pydict \<Rightarrow> pydict" where
  \<comment> \<open>\<^verbatim>\<open>d[k] = v\<close>\<close>
  "dict_set k v [] = [(k, v)]"
| "dict_set k v ((k', v') # d) = (if k = k' then (k', v) # d else (k', v') # dict_set k v d)"

definition dict_get :: "pydict \<Rightarrow> string \<Rightarrow> pyval \<Rightarrow> pyval" where
  \<comment> \<open>\<^verbatim>\<open>d.get(k, default)\<close>; \<^verbatim>\<open>d.get(k)\<close> is \<open>dict_get d k PNone\<close>.\<close>
  "dict_get d k dflt = (case map_of d k of None \<Rightarrow> dflt | Some v \<Rightarrow> v)"

text \<open>
  A row of \<^verbatim>\<open>posts\<close>. The table's declaration is not part of the sources; the columns
  are those the three services name. \<^verbatim>\<open>id\<close> is the key the classifications refer to,
  \<^verbatim>\<open>uri\<close> the key of the sync's upsert.
\<close>

record post =
  pid :: int
  uri :: string
  cid :: "string option"
  author_did :: string
  author_handle :: "string option"
  post_created_at :: "timestamp option"
  indexed_at :: "timestamp option"
  text_content :: "string option"
  facets :: "string option"
  langs :: "pyval option"
  has_media :: "bool option"
  media_count :: "int option"
  embed_type :: "string option"
  embed_data :: "string option"
  processed_at :: "timestamp option"
  classification_version :: "int option"

subsection \<open>The queries of \<^verbatim>\<open>build_profiles.py\<close>\<close>

definition joined :: "post list \<Rightarrow> classification list \<Rightarrow> (post \<times> classification) list" where
  \<comment> \<open>\<^verbatim>\<open>posts p JOIN post_classifications pc ON p.id = pc.post_id\<close>\<close>
  "joined posts pcs =
     concat (map (\<lambda>p. map (Pair p) (filter (\<lambda>c. post_id c = pid p) pcs)) posts)"

fun text_less :: "string \<Rightarrow> string \<Rightarrow> bool" where
  \<comment> \<open>The order of \<^verbatim>\<open>MAX\<close> on text: byte by byte (the \<^verbatim>\<open>C\<close> collation).\<close>
  "text_less [] [] = False"
| "text_less [] (y # ys) = True"
| "text_less (x # xs) [] = False"
| "text_less (x # xs) (y # ys) =
     ((of_char x :: nat) < of_char y \<or> (x = y \<and> text_less xs ys))"

definition sql_max_text :: "string option list \<Rightarrow> string option" where
  \<comment> \<open>An aggregate skips nulls and is null when nothing is left.\<close>
  "sql_max_text vs =
     (case map the (filter (\<lambda>v. v \<noteq> None) vs) of
        [] \<Rightarrow> None
      | x # xs \<Rightarrow> Some (fold (\<lambda>a b. if text_less b a then a else b) xs x))"

definition sql_max :: "timestamp option list \<Rightarrow> timestamp option" where
  "sql_max vs =
     (case map the (filter (\<lambda>v. v \<noteq> None) vs) of
        [] \<Rightarrow> None
      | x # xs \<Rightarrow> Some (fold max xs x))"

definition sql_min :: "timestamp option list \<Rightarrow> timestamp option" where
  "sql_min vs =
     (case map the (filter (\<lambda>v. v \<noteq> None) vs) of
        [] \<Rightarrow> None
      | x # xs \<Rightarrow> Some (fold min xs x))"

definition user_group :: "post list \<Rightarrow> classification list \<Rightarrow> string \<Rightarrow> user_row" where
  \<comment> \<open>One group of \<^verbatim>\<open>GROUP BY p.author_did\<close>; \<^verbatim>\<open>COUNT(1)\<close> counts the joined rows.\<close>
  "user_group posts pcs did =
     (let g = map fst (filter (\<lambda>(p, c). author_did p = did) (joined posts pcs))
      in \<lparr> u_author_did = did,
           u_author_handle = sql_max_text (map author_handle g),
           post_count = int (length g),
           first_post = sql_min (map post_created_at g),
           last_post = sql_max (map post_created_at g) \<rparr>)"

definition get_users_with_posts :: "post list \<Rightarrow> classification list \<Rightarrow> int \<Rightarrow> user_row list" where
  \<comment> \<open>Groups with the same count come in the order in which their authors first appear;
      SQL leaves that order open.\<close>
  "get_users_with_posts posts pcs min_posts =
     sort_key (\<lambda>u. - post_count u)
       (filter (\<lambda>u. min_posts \<le> post_count u)
          (map (user_group posts pcs) (remdups (map (author_did \<circ> fst) (joined posts pcs)))))"

definition order_by_created_desc :: "('a \<Rightarrow> timestamp option) \<Rightarrow> 'a list \<Rightarrow> 'a list" where
  \<comment> \<open>\<^verbatim>\<open>ORDER BY post_created_at DESC\<close>: PostgreSQL puts nulls first in a descending order.\<close>
  "order_by_created_desc created rows =
     filter (\<lambda>r. created r = None) rows
     @ sort_key (\<lambda>r. - the (created r)) (filter (\<lambda>r. created r \<noteq> None) rows)"

definition get_user_classifications ::
  "post list \<Rightarrow> classification list \<Rightarrow> string \<Rightarrow> classification list" where
  "get_user_classifications posts pcs did =
     map snd (order_by_created_desc (post_created_at \<circ> fst)
                (filter (\<lambda>(p, c). author_did p = did) (joined posts pcs)))"

definition distinct_classified_posts :: "post list \<Rightarrow> classification list \<Rightarrow> string \<Rightarrow> int" where
  \<comment> \<open>The number of the author's posts that have at least one classification row: the
      quantity \<^verbatim>\<open>COUNT(DISTINCT p.id)\<close> would select.\<close>
  "distinct_classified_posts posts pcs did =
     int (length (remdups (map (pid \<circ> fst)
                    (filter (\<lambda>(p, c). author_did p = did) (joined posts pcs)))))"

section \<open>SyncService: \<^verbatim>\<open>sync.py\<close>\<close>

text \<open>
  A row of the source store (SQLite) and the tuple \<^verbatim>\<open>sync_posts\<close> builds from it for
  \<^verbatim>\<open>posts_data\<close>. \<^verbatim>\<open>json.loads\<close>, \<^verbatim>\<open>json.dumps\<close> and \<^verbatim>\<open>parse_timestamp\<close> (which reads
  the clock when the text does not parse) are parameters.
\<close>

record source_row =
  s_uri :: string
  s_cid :: "string option"
  s_author_did :: string
  s_author_handle :: "string option"
  s_indexed_at :: "string option"
  s_created_at :: "string option"
  s_text :: "string option"
  s_facets :: "string option"
  s_has_media :: "int option"
  s_embed_type :: "string option"
  s_langs :: "string option"

record post_values =
  v_uri :: string
  v_cid :: "string option"
  v_author_did :: string
  v_author_handle :: "string option"
  v_post_created_at :: timestamp
  v_indexed_at :: timestamp
  v_text_content :: "string option"
  v_facets :: "string option"
  v_langs :: "pyval option"
  v_has_media :: bool
  v_media_count :: int
  v_embed_type :: "string option"
  v_embed_data :: "string option"

definition sql_value :: "pyval \<Rightarrow> pyval option" where
  \<comment> \<open>A Python value as a query parameter: \<^verbatim>\<open>None\<close> is \<^verbatim>\<open>NULL\<close>.\<close>
  "sql_value v = (if v = PNone then None else Some v)"

definition prepare_values ::
  "(string \<Rightarrow> pyval option) \<Rightarrow> (pyval \<Rightarrow> string) \<Rightarrow> (string option \<Rightarrow> timestamp) \<Rightarrow>
   source_row \<Rightarrow> post_values" where
  "prepare_values loads dumps parse_timestamp row =
     (let facets_v =
            (case s_facets row of
               None \<Rightarrow> PNone
             | Some s \<Rightarrow> if s = [] then PNone
                         else (case loads s of None \<Rightarrow> PNone | Some j \<Rightarrow> j));
          langs_v =
            (case s_langs row of
               None \<Rightarrow> PNone
             | Some s \<Rightarrow> if s = [] then PNone
                         else (case loads s of None \<Rightarrow> PList [PStr s] | Some j \<Rightarrow> j))
      in \<lparr> v_uri = s_uri row,
           v_cid = s_cid row,
           v_author_did = s_author_did row,
           v_author_handle = s_author_handle row,
           v_post_created_at = parse_timestamp (s_created_at row),
           v_indexed_at = parse_timestamp (s_indexed_at row),
           v_text_content = s_text row,
           v_facets = (if py_truthy facets_v then Some (dumps facets_v) else None),
           v_langs = sql_value langs_v,
           v_has_media = (case s_has_media row of None \<Rightarrow> False | Some b \<Rightarrow> b \<noteq> 0),
           v_media_count = 0,
           v_embed_type = s_embed_type row,
           v_embed_data = None \<rparr>)"

definition coalesce :: "'a option \<Rightarrow> 'a option \<Rightarrow> 'a option" where
  "coalesce a b = (case a of None \<Rightarrow> b | Some x \<Rightarrow> Some x)"

definition on_conflict_update :: "post \<Rightarrow> post_values \<Rightarrow> post" where
  \<comment> \<open>The \<^verbatim>\<open>DO UPDATE SET\<close> list of the upsert; \<open>v\<close> is \<^verbatim>\<open>EXCLUDED\<close>.\<close>
  "on_conflict_update p v =
     p \<lparr> text_content := coalesce (v_text_content v) (text_content p),
         facets := coalesce (v_facets v) (facets p),
         langs := coalesce (v_langs v) (langs p),
         has_media := Some (v_has_media v),
         embed_type := v_embed_type v \<rparr>"

definition fresh_id :: "post list \<Rightarrow> int" where
  \<comment> \<open>The next value of the \<^verbatim>\<open>id\<close> sequence: some id no row has.\<close>
  "fresh_id rows = fold max (map pid rows) 0 + 1"

definition insert_post :: "int option \<Rightarrow> int \<Rightarrow> post_values \<Rightarrow> post" where
  \<comment> \<open>A new row: the columns the \<^verbatim>\<open>INSERT\<close> does not name take their defaults.
      \<open>version_default\<close> is the default of \<^verbatim>\<open>classification_version\<close>, which the table's
      declaration (not in the sources) fixes.\<close>
  "insert_post version_default new_id v =
     \<lparr> pid = new_id,
       uri = v_uri v,
       cid = v_cid v,
       author_did = v_author_did v,
       author_handle = v_author_handle v,
       post_created_at = Some (v_post_created_at v),
       indexed_at = Some (v_indexed_at v),
       text_content = v_text_content v,
       facets = v_facets v,
       langs = v_langs v,
       has_media = Some (v_has_media v),
       media_count = Some (v_media_count v),
       embed_type = v_embed_type v,
       embed_data = v_embed_data v,
       processed_at = None,
       classification_version = version_default \<rparr>"

definition upsert_post :: "int option \<Rightarrow> post list \<Rightarrow> post_values \<Rightarrow> post list" where
  \<comment> \<open>\<^verbatim>\<open>INSERT INTO posts ... ON CONFLICT (uri) DO UPDATE SET ...\<close> for one tuple.\<close>
  "upsert_post version_default rows v =
     (if v_uri v \<in> set (map uri rows)
      then map (\<lambda>p. if uri p = v_uri v then on_conflict_update p v else p) rows
      else rows @ [insert_post version_default (fresh_id rows) v])"

definition sync_upsert :: "int option \<Rightarrow> post list \<Rightarrow> post_values list \<Rightarrow> post list" where
  \<comment> \<open>\<^verbatim>\<open>execute_values\<close> over \<^verbatim>\<open>posts_data\<close>; the source store's rows have distinct uris.\<close>
  "sync_upsert version_default rows posts_data = foldl (upsert_post version_default) rows posts_data"

section \<open>ClassificationEngine: \<^verbatim>\<open>classifier_parallel.py\<close>\<close>

text \<open>
  A row of \<^verbatim>\<open>post_classifications\<close> as \<^verbatim>\<open>save_classification\<close> writes it: each column
  holds the Python value the statement passes (\<open>PNone\<close> is \<^verbatim>\<open>NULL\<close>), the raw response is
  the text \<^verbatim>\<open>json.dumps\<close> produced. The table's declaration is not part of the sources, so
  the store's own type checks are not modelled: a statement that reaches the store succeeds.
\<close>

record pc_row =
  pc_post_id :: int
  pc_model_version :: pyval
  pc_confidence :: pyval
  pc_processing_ms :: pyval
  pc_classified_at :: "timestamp option"
  pc_experience_level :: pyval
  pc_consumer_type :: pyval
  pc_lifestyle_tags :: pyval
  pc_occasion :: pyval
  pc_setting :: pyval
  pc_mood_before :: pyval
  pc_mood_after :: pyval
  pc_time_of_day :: pyval
  pc_is_ritual :: pyval
  pc_intent_type :: pyval
  pc_purchase_intent :: pyval
  pc_purchase_stage :: pyval
  pc_product_category :: pyval
  pc_effects_mentioned :: pyval
  pc_effects_desired :: pyval
  pc_quality_perception :: pyval
  pc_dosage_pattern :: pyval
  pc_post_type :: pyval
  pc_media_type :: pyval
  pc_sentiment :: pyval
  pc_sentiment_score :: pyval
  pc_emotions :: pyval
  pc_brand_mentioned :: pyval
  pc_strain_mentioned :: pyval
  pc_dispensary_mentioned :: pyval
  pc_price_mentioned :: pyval
  pc_price_sentiment :: pyval
  pc_frustrations :: pyval
  pc_region_hint :: pyval
  pc_legal_context :: pyval
  pc_data_richness :: pyval
  pc_business_value :: pyval
  pc_audience_segments :: pyval
  pc_raw_response :: string

record db =
  posts :: "post list"
  post_classifications :: "pc_row list"

definition MODEL_VERSION :: string where
  "MODEL_VERSION = ''deepseek-chat-20260131''"


text \<open>
  The classifier call. \<open>chat\<close> stands for \<^verbatim>\<open>client.chat.completions.create\<close> together with
  the clock: it raises, or answers with the message content (which may be \<^verbatim>\<open>None\<close>) after
  a number of milliseconds. It sees the post through the arguments of the prompt.
\<close>

record prompt_args =
  a_text :: string
  a_has_media :: "bool option"
  a_embed_type :: "string option"
  a_langs :: "pyval option"
  a_created_at :: "timestamp option"

datatype api_reply = ApiRaised | ApiContent "string option" int

datatype classify_error = JSONDecodeError | OtherException

definition classify_post_async ::
  "(string \<Rightarrow> pyval option) \<Rightarrow> (prompt_args \<Rightarrow> api_reply) \<Rightarrow> post \<Rightarrow>
   int \<times> pydict option \<times> classify_error option" where
  \<comment> \<open>\<open>loads s = None\<close> is \<^verbatim>\<open>json.loads\<close> raising \<^verbatim>\<open>JSONDecodeError\<close>. Slicing \<^verbatim>\<open>None\<close>,
      passing \<^verbatim>\<open>None\<close> to \<^verbatim>\<open>json.loads\<close> and assigning a key of a value that is not a
      dictionary raise \<^verbatim>\<open>TypeError\<close>, which \<^verbatim>\<open>except Exception\<close> catches.\<close>
  "classify_post_async loads chat p =
     (case text_content p of
        None \<Rightarrow> (pid p, None, Some OtherException)
      | Some text \<Rightarrow>
          (case chat \<lparr> a_text = take 2000 text, a_has_media = has_media p,
                       a_embed_type = embed_type p, a_langs = langs p,
                       a_created_at = post_created_at p \<rparr> of
             ApiRaised \<Rightarrow> (pid p, None, Some OtherException)
           | ApiContent None ms \<Rightarrow> (pid p, None, Some OtherException)
           | ApiContent (Some content) ms \<Rightarrow>
               (case loads content of
                  None \<Rightarrow> (pid p, None, Some JSONDecodeError)
                | Some (PDict result) \<Rightarrow>
                    (pid p,
                     Some (dict_set ''model_version'' (PStr MODEL_VERSION)
                             (dict_set ''processing_ms'' (PInt ms) result)),
                     None)
                | Some _ \<Rightarrow> (pid p, None, Some OtherException))))"

definition new_pc_row ::
  "(pyval \<Rightarrow> string) \<Rightarrow> timestamp option \<Rightarrow> int \<Rightarrow> pydict \<Rightarrow> pc_row" where
  \<comment> \<open>The \<^verbatim>\<open>VALUES\<close> tuple. \<open>classified_default\<close> is what the column \<^verbatim>\<open>classified_at\<close>, which
      the \<^verbatim>\<open>INSERT\<close> does not name, takes in a new row.\<close>
  "new_pc_row dumps classified_default post_id' classification =
     \<lparr> pc_post_id = post_id',
       pc_model_version = dict_get classification ''model_version'' (PStr MODEL_VERSION),
       pc_confidence = dict_get classification ''confidence'' (PInt 80),
       pc_processing_ms = dict_get classification ''processing_ms'' PNone,
       pc_classified_at = classified_default,
       pc_experience_level = dict_get classification ''experience_level'' PNone,
       pc_consumer_type = dict_get classification ''consumer_type'' PNone,
       pc_lifestyle_tags = dict_get classification ''lifestyle_tags'' PNone,
       pc_occasion = dict_get classification ''occasion'' PNone,
       pc_setting = dict_get classification ''setting'' PNone,
       pc_mood_before = dict_get classification ''mood_before'' PNone,
       pc_mood_after = dict_get classification ''mood_after'' PNone,
       pc_time_of_day = dict_get classification ''time_of_day'' PNone,
       pc_is_ritual = dict_get classification ''is_ritual'' (PBool False),
       pc_intent_type = dict_get classification ''intent_type'' PNone,
       pc_purchase_intent = dict_get classification ''purchase_intent'' PNone,
       pc_purchase_stage = dict_get classification ''purchase_stage'' PNone,
       pc_product_category = dict_get classification ''product_category'' PNone,
       pc_effects_mentioned = dict_get classification ''effects_mentioned'' PNone,
       pc_effects_desired = dict_get classification ''effects_desired'' PNone,
       pc_quality_perception = dict_get classification ''quality_perception'' PNone,
       pc_dosage_pattern = dict_get classification ''dosage_pattern'' PNone,
       pc_post_type = dict_get classification ''post_type'' PNone,
       pc_media_type = dict_get classification ''media_type'' PNone,
       pc_sentiment = dict_get classification ''sentiment'' PNone,
       pc_sentiment_score = dict_get classification ''sentiment_score'' PNone,
       pc_emotions = dict_get classification ''emotions'' PNone,
       pc_brand_mentioned = dict_get classification ''brand_mentioned'' PNone,
       pc_strain_mentioned = dict_get classification ''strain_mentioned'' PNone,
       pc_dispensary_mentioned = dict_get classification ''dispensary_mentioned'' PNone,
       pc_price_mentioned = dict_get classification ''price_mentioned'' (PBool False),
       pc_price_sentiment = dict_get classification ''price_sentiment'' PNone,
       pc_frustrations = dict_get classification ''frustrations'' PNone,
       pc_region_hint = dict_get classification ''region_hint'' PNone,
       pc_legal_context = dict_get classification ''legal_context'' PNone,
       pc_data_richness = dict_get classification ''data_richness'' PNone,
       pc_business_value = dict_get classification ''business_value'' PNone,
       pc_audience_segments = dict_get classification ''audience_segments'' PNone,
       pc_raw_response = dumps (PDict classification) \<rparr>"

definition pc_conflict :: "pc_row \<Rightarrow> pc_row \<Rightarrow> bool" where
  \<comment> \<open>\<^verbatim>\<open>ON CONFLICT (post_id, model_version)\<close>\<close>
  "pc_conflict r new = (pc_post_id r = pc_post_id new \<and> pc_model_version r = pc_model_version new)"

definition upsert_classification :: "timestamp \<Rightarrow> pc_row list \<Rightarrow> pc_row \<Rightarrow> pc_row list" where
  "upsert_classification now rows new =
     (if list_ex (\<lambda>r. pc_conflict r new) rows
      then map (\<lambda>r. if pc_conflict r new
                     then r \<lparr> pc_confidence := pc_confidence new,
                              pc_processing_ms := pc_processing_ms new,
                              pc_classified_at := Some now \<rparr>
                     else r) rows
      else rows @ [new])"

definition mark_processed :: "timestamp \<Rightarrow> int \<Rightarrow> post list \<Rightarrow> post list" where
  \<comment> \<open>\<^verbatim>\<open>UPDATE posts SET processed_at = NOW(), classification_version = 1 WHERE id = %s\<close>\<close>
  "mark_processed now post_id' rows =
     map (\<lambda>p. if pid p = post_id'
               then p \<lparr> processed_at := Some now, classification_version := Some 1 \<rparr>
               else p) rows"

definition save_classification ::
  "(pyval \<Rightarrow> string) \<Rightarrow> (timestamp \<Rightarrow> timestamp option) \<Rightarrow> timestamp \<Rightarrow>
   int \<Rightarrow> pydict \<Rightarrow> db \<Rightarrow> db" where
  \<comment> \<open>\<open>now\<close> is \<^verbatim>\<open>NOW()\<close> of the transaction.\<close>
  "save_classification dumps classified_default now post_id' classification d =
     \<lparr> posts = mark_processed now post_id' (posts d),
       post_classifications =
         upsert_classification now (post_classifications d)
           (new_pc_row dumps (classified_default now) post_id' classification) \<rparr>"



section \<open>The legacy extractor: \<^verbatim>\<open>cannect-intel/extractor.py\<close>\<close>

definition str_find :: "char \<Rightarrow> string \<Rightarrow> int" where
  "str_find c s = (if c \<in> set s then int (length (takeWhile (\<lambda>x. x \<noteq> c) s)) else - 1)"

definition str_rfind :: "char \<Rightarrow> string \<Rightarrow> int" where
  "str_rfind c s =
     (if c \<in> set s then int (length s) - 1 - int (length (takeWhile (\<lambda>x. x \<noteq> c) (rev s)))
      else - 1)"

definition str_slice :: "string \<Rightarrow> int \<Rightarrow> int \<Rightarrow> string" where
  \<comment> \<open>\<^verbatim>\<open>s[start:end]\<close> for \<open>0 \<le> start\<close> and \<open>0 \<le> end\<close>\<close>
  "str_slice s start end' = take (nat end' - nat start) (drop (nat start) s)"

datatype http_reply = HttpRaised | HttpReply int string

definition extract_insights :: "(string \<Rightarrow> pyval option) \<Rightarrow> http_reply \<Rightarrow> pyval option" where
  \<comment> \<open>The reply is that of \<^verbatim>\<open>requests.post\<close>: its status code and the \<^verbatim>\<open>response\<close> field
      of its body. The result \<open>None\<close> is Python's \<^verbatim>\<open>None\<close>.\<close>
  "extract_insights loads reply =
     (case reply of
        HttpRaised \<Rightarrow> None
      | HttpReply status result \<Rightarrow>
          if status = 200
          then (let start = str_find (CHR ''{'') result;
                    end' = str_rfind (CHR ''}'') result + 1
                in if 0 \<le> start \<and> start < end' then loads (str_slice result start end')
                   else None)
          else None)"

section \<open>A JSON reader\<close>

text \<open>
  \<^verbatim>\<open>json.loads\<close> on the JSON texts without fractions, exponents, \<^verbatim>\<open>\u\<close> escapes and the
  literals \<^verbatim>\<open>NaN\<close> and \<^verbatim>\<open>Infinity\<close>: on such a text it returns the value Python returns,
  and \<open>None\<close> where Python raises \<^verbatim>\<open>JSONDecodeError\<close>. The functions above take the reader
  as a parameter; this one is an instance to run them with. The fuel bounds the depth of
  the calls, which the length of the text bounds.
\<close>

definition dict_first :: "string \<Rightarrow> pyval \<Rightarrow> pydict \<Rightarrow> pydict" where
  \<comment> \<open>The dictionary of \<^verbatim>\<open>k: v\<close> followed by the members \<open>d\<close>: a key keeps the place of its
      first occurrence and takes the value of its last.\<close>
  "dict_first k v d =
     (case map_of d k of
        None \<Rightarrow> (k, v) # d
      | Some v' \<Rightarrow> (k, v') # filter (\<lambda>e. fst e \<noteq> k) d)"

definition is_ws :: "char \<Rightarrow> bool" where
  "is_ws c = (c = CHR '' '' \<or> c = CHR 0x09 \<or> c = CHR 0x0A \<or> c = CHR 0x0D)"

fun skip_ws :: "string \<Rightarrow> string" where
  "skip_ws [] = []"
| "skip_ws (c # cs) = (if is_ws c then skip_ws cs else c # cs)"

definition unescape :: "char \<Rightarrow> char option" where
  "unescape c =
     (if c = CHR 0x22 then Some (CHR 0x22)
      else if c = CHR 0x5C then Some (CHR 0x5C)
      else if c = CHR ''/'' then Some (CHR ''/'')
      else if c = CHR ''b'' then Some (CHR 0x08)
      else if c = CHR ''f'' then Some (CHR 0x0C)
      else if c = CHR ''n'' then Some (CHR 0x0A)
      else if c = CHR ''r'' then Some (CHR 0x0D)
      else if c = CHR ''t'' then Some (CHR 0x09)
      else None)"

fun scan_string :: "string \<Rightarrow> (string \<times> string) option" where
  \<comment> \<open>After the opening quote: the text up to the closing one, and what follows it.\<close>
  "scan_string [] = None"
| "scan_string [c] = (if c = CHR 0x22 then Some ([], []) else None)"
| "scan_string (c # c' # cs) =
     (if c = CHR 0x22 then Some ([], c' # cs)
      else if c = CHR 0x5C
      then (case unescape c' of
              None \<Rightarrow> None
            | Some u \<Rightarrow> map_option (\<lambda>(s, r). (u # s, r)) (scan_string cs))
      else if (of_char c :: nat) < 32 then None
      else map_option (\<lambda>(s, r). (c # s, r)) (scan_string (c' # cs)))"

definition is_digit :: "char \<Rightarrow> bool" where
  "is_digit c = (48 \<le> (of_char c :: nat) \<and> (of_char c :: nat) \<le> 57)"

definition digit_val :: "char \<Rightarrow> int" where
  "digit_val c = int (of_char c) - 48"

definition scan_nat :: "string \<Rightarrow> (int \<times> string) option" where
  \<comment> \<open>\<^verbatim>\<open>0|[1-9][0-9]*\<close>; a fraction or an exponent after it is outside the fragment.\<close>
  "scan_nat s =
     (case s of
        [] \<Rightarrow> None
      | c # cs \<Rightarrow>
          if \<not> is_digit c then None
          else (let ds = (if c = CHR ''0'' then [c] else takeWhile is_digit s);
                    r = drop (length ds) s
                in if r \<noteq> [] \<and> (hd r = CHR ''.'' \<or> hd r = CHR ''e'' \<or> hd r = CHR ''E'') then None
                   else Some (foldl (\<lambda>a d. 10 * a + digit_val d) 0 ds, r)))"

definition scan_number :: "string \<Rightarrow> (pyval \<times> string) option" where
  "scan_number s =
     (case s of
        [] \<Rightarrow> None
      | c # cs \<Rightarrow>
          if c = CHR ''-'' then map_option (\<lambda>(i, r). (PInt (- i), r)) (scan_nat cs)
          else map_option (\<lambda>(i, r). (PInt i, r)) (scan_nat s))"

definition scan_literal :: "string \<Rightarrow> (pyval \<times> string) option" where
  "scan_literal s =
     (if take 4 s = ''true'' then Some (PBool True, drop 4 s)
      else if take 5 s = ''false'' then Some (PBool False, drop 5 s)
      else if take 4 s = ''null'' then Some (PNone, drop 4 s)
      else scan_number s)"

fun parse_value :: "nat \<Rightarrow> string \<Rightarrow> (pyval \<times> string) option"
and parse_elements :: "nat \<Rightarrow> string \<Rightarrow> (pyval list \<times> string) option"
and parse_members :: "nat \<Rightarrow> string \<Rightarrow> (pydict \<times> string) option" where
  "parse_value 0 s = None"
| "parse_value (Suc n) [] = None"
| "parse_value (Suc n) (c # cs) =
     (if c = CHR ''{''
      then (let r = skip_ws cs
            in if r \<noteq> [] \<and> hd r = CHR ''}'' then Some (PDict [], tl r)
               else map_option (\<lambda>(d, r'). (PDict d, r')) (parse_members n r))
      else if c = CHR ''[''
      then (let r = skip_ws cs
            in if r \<noteq> [] \<and> hd r = CHR '']'' then Some (PList [], tl r)
               else map_option (\<lambda>(xs, r'). (PList xs, r')) (parse_elements n r))
      else if c = CHR 0x22
      then map_option (\<lambda>(s, r). (PStr s, r)) (scan_string cs)
      else scan_literal (c # cs))"
| "parse_elements 0 s = None"
| "parse_elements (Suc n) s =
     (case parse_value n s of
        None \<Rightarrow> None
      | Some (v, r) \<Rightarrow>
          (let r' = skip_ws r
           in if r' = [] then None
              else if hd r' = CHR '','' 
              then map_option (\<lambda>(xs, r''). (v # xs, r'')) (parse_elements n (skip_ws (tl r')))
              else if hd r' = CHR '']'' then Some ([v], tl r')
              else None))"
| "parse_members 0 s = None"
| "parse_members (Suc n) s =
     (if s = [] \<or> hd s \<noteq> CHR 0x22 then None
      else (case scan_string (tl s) of
              None \<Rightarrow> None
            | Some (k, r) \<Rightarrow>
                (let r1 = skip_ws r
                 in if r1 = [] \<or> hd r1 \<noteq> CHR '':'' then None
                    else (case parse_value n (skip_ws (tl r1)) of
                            None \<Rightarrow> None
                          | Some (v, r2) \<Rightarrow>
                              (let r3 = skip_ws r2
                               in if r3 = [] then None
                                  else if hd r3 = CHR '',''
                                  then map_option (\<lambda>(d, r4). (dict_first k v d, r4))
                                         (parse_members n (skip_ws (tl r3)))
                                  else if hd r3 = CHR ''}'' then Some ([(k, v)], tl r3)
                                  else None)))))"

definition json_loads :: "string \<Rightarrow> pyval option" where
  "json_loads s =
     (case parse_value (2 * length s + 2) (skip_ws s) of
        None \<Rightarrow> None
      | Some (v, r) \<Rightarrow> if skip_ws r = [] then Some v else None)"

section \<open>A JSON writer\<close>

text \<open>
  \<^verbatim>\<open>json.dumps\<close> with its default separators, on values whose strings consist of
  printable ASCII characters and the control characters that have a short escape.
\<close>

fun digits_of :: "nat \<Rightarrow> string" where
  "digits_of n =
     (if n < 10 then [char_of (48 + n)] else digits_of (n div 10) @ [char_of (48 + n mod 10)])"

definition escape_char :: "char \<Rightarrow> string" where
  "escape_char c =
     (if c = CHR 0x22 then [CHR 0x5C, CHR 0x22]
      else if c = CHR 0x5C then [CHR 0x5C, CHR 0x5C]
      else if c = CHR 0x0A then [CHR 0x5C, CHR ''n'']
      else if c = CHR 0x0D then [CHR 0x5C, CHR ''r'']
      else if c = CHR 0x09 then [CHR 0x5C, CHR ''t'']
      else if c = CHR 0x08 then [CHR 0x5C, CHR ''b'']
      else if c = CHR 0x0C then [CHR 0x5C, CHR ''f'']
      else [c])"

definition dumps_str :: "string \<Rightarrow> string" where
  "dumps_str s = [CHR 0x22] @ concat (map escape_char s) @ [CHR 0x22]"

fun join_with :: "string \<Rightarrow> string list \<Rightarrow> string" where
  "join_with sep [] = []"
| "join_with sep [x] = x"
| "join_with sep (x # y # r) = x @ sep @ join_with sep (y # r)"

fun json_dumps :: "pyval \<Rightarrow> string" where
  "json_dumps PNone = ''null''"
| "json_dumps (PBool b) = (if b then ''true'' else ''false'')"
| "json_dumps (PInt i) = (if i < 0 then CHR ''-'' # digits_of (nat (- i)) else digits_of (nat i))"
| "json_dumps (PStr s) = dumps_str s"
| "json_dumps (PList xs) = ''['' @ join_with '', '' (map json_dumps xs) @ '']''"
| "json_dumps (PDict d) =
     ''{'' @ join_with '', '' (map (\<lambda>kv. dumps_str (fst kv) @ '': '' @ json_dumps (snd kv)) d)
     @ ''}''"

section \<open>Rows for the examples\<close>

text \<open>Rows whose nullable columns are all null; the examples below fill in what they need.\<close>

definition blank_classification :: "int \<Rightarrow> string \<Rightarrow> classification" where
  "blank_classification i mv =
     \<lparr> post_id = i, model_version = mv, consumer_type = None, experience_level = None,
       product_category = None, sentiment = None, sentiment_score = None,
       purchase_intent = None, effects_mentioned = None, effects_desired = None,
       lifestyle_tags = None, frustrations = None, emotions = None, occasion = None \<rparr>"

definition blank_post :: "int \<Rightarrow> string \<Rightarrow> string \<Rightarrow> post" where
  "blank_post i u a =
     \<lparr> pid = i, uri = u, cid = None, author_did = a, author_handle = None,
       post_created_at = None, indexed_at = None, text_content = None, facets = None,
       langs = None, has_media = None, media_count = None, embed_type = None,
       embed_data = None, processed_at = None, classification_version = None \<rparr>"

definition blank_user :: "string \<Rightarrow> int \<Rightarrow> user_row" where
  "blank_user a n =
     \<lparr> u_author_did = a, u_author_handle = None, post_count = n,
       first_post = None, last_post = None \<rparr>"

definition blank_values :: "string \<Rightarrow> string \<Rightarrow> timestamp \<Rightarrow> post_values" where
  "blank_values u a t =
     \<lparr> v_uri = u, v_cid = None, v_author_did = a, v_author_handle = None,
       v_post_created_at = t, v_indexed_at = t, v_text_content = None, v_facets = None,
       v_langs = None, v_has_media = False, v_media_count = 0, v_embed_type = None,
       v_embed_data = None \<rparr>"

definition text_post :: "int \<Rightarrow> string \<Rightarrow> timestamp \<Rightarrow> post" where
  \<comment> \<open>An unprocessed post with a text.\<close>
  "text_post i txt t =
     (blank_post i (''at://a/'' @ digits_of (nat i)) ''did:a'')
       \<lparr> text_content := Some txt, post_created_at := Some t \<rparr>"



section \<open>Projections used to state the properties\<close>

definition semantic_part :: "pc_row \<Rightarrow> pc_row" where
  \<comment> \<open>A classification row without its telemetry: what is left are the key, the semantic
      columns and the raw response.\<close>
  "semantic_part r = r \<lparr> pc_confidence := PNone, pc_processing_ms := PNone, pc_classified_at := None \<rparr>"

definition unclassified_part :: "post \<Rightarrow> post" where
  \<comment> \<open>A post without the two columns the engine writes.\<close>
  "unclassified_part p = p \<lparr> processed_at := None, classification_version := None \<rparr>"

definition sync_frame :: "post \<Rightarrow> post" where
  \<comment> \<open>A post without the five columns the sync's upsert writes on a conflict.\<close>
  "sync_frame p = p \<lparr> text_content := None, facets := None, langs := None,
                      has_media := None, embed_type := None \<rparr>"




section \<open>Properties of the ProfileAggregator\<close>

subsection \<open>The ranking\<close>

text \<open>The ranking of a non-empty list has a first entry, as \<^verbatim>\<open>most_common\<close> relies on.\<close>

lemma counter_add_nonempty: "counter_add x c \<noteq> []"
  by (cases c) (auto split: if_splits)

lemma Counter_nonempty: "xs \<noteq> [] \<Longrightarrow> Counter xs \<noteq> []"
proof (induction xs rule: rev_induct)
  case Nil
  then show ?case by simp
next
  case (snoc x xs)
  then show ?case by (simp add: Counter_def counter_add_nonempty)
qed

lemma most_common_ranked:
  assumes "xs \<noteq> []"
  shows "Counter_most_common (Suc n) (Counter xs) \<noteq> []"
proof -
  have "length (sort_key (\<lambda>e. - int (snd e)) (Counter xs)) = length (Counter xs)"
    by simp
  then have "sort_key (\<lambda>e. - int (snd e)) (Counter xs) \<noteq> []"
    using Counter_nonempty [OF assms] by (metis length_0_conv)
  then show ?thesis
    by (simp add: Counter_most_common_def)
qed

text \<open>
  The model on the examples the documentation works out: the most common consumer type
  skips \<open>unknown\<close>; purchase intents 80, 60 and 0 over 3 posts give a dispensary score of
  \<^verbatim>\<open>int(23.33 + 20 + 6) = 49\<close>; with two distinct known consumer types the secondary type
  is the second of the ranking.
\<close>

lemma documented_examples:
  "most_common [Some ''wellness'', Some ''wellness'', Some ''unknown'', Some ''medical''] ''unknown''
     = ''wellness'' \<and>
   dispensary_score (blank_user ''did:a'' 3)
     [(blank_classification 1 ''v1'') \<lparr> purchase_intent := Some 80 \<rparr>,
      (blank_classification 2 ''v1'') \<lparr> purchase_intent := Some 60 \<rparr>,
      (blank_classification 3 ''v1'') \<lparr> purchase_intent := Some 0 \<rparr>] = 49 \<and>
   secondary_consumer_type [Some ''wellness'', Some ''medical'', Some ''medical'', None]
     = Inr (Some ''wellness'')"
  by code_simp

subsection \<open>Posting frequency\<close>

text \<open>
  C9. \<^verbatim>\<open>calculate_posting_frequency\<close> returns \<open>unknown\<close> when either timestamp is missing and
  \<open>burst\<close> when the span between first and last post is 0 days; otherwise, with
  posts-per-week = post_count * 7 / span_days, it returns \<open>daily\<close> from 7 on,
  \<open>several_weekly\<close> from 3 on, \<open>weekly\<close> from 1 on, \<open>monthly\<close> from 0.25 on and
  \<open>occasional\<close> below. A span of 7 days with 7 posts is \<open>daily\<close>, a span of 30 days with
  2 posts is \<open>monthly\<close>. (The source computes \<^verbatim>\<open>(post_count / days) * 7\<close>; over the
  rationals that is the same number.)
\<close>

theorem posting_frequency_buckets:
  "calculate_posting_frequency None l n = ''unknown'' \<and>
   calculate_posting_frequency f None n = ''unknown'' \<and>
   calculate_posting_frequency (Some a) (Some b) n =
     (if timedelta_days b a = 0 then ''burst''
      else if (7 :: rat) \<le> of_int (n * 7) / of_int (timedelta_days b a) then ''daily''
      else if (3 :: rat) \<le> of_int (n * 7) / of_int (timedelta_days b a) then ''several_weekly''
      else if (1 :: rat) \<le> of_int (n * 7) / of_int (timedelta_days b a) then ''weekly''
      else if (1 / 4 :: rat) \<le> of_int (n * 7) / of_int (timedelta_days b a) then ''monthly''
      else ''occasional'') \<and>
   calculate_posting_frequency (Some t) (Some (t + 7 * 86400000000)) 7 = ''daily'' \<and>
   calculate_posting_frequency (Some t) (Some (t + 30 * 86400000000)) 2 = ''monthly''"
  by (simp add: calculate_posting_frequency_def timedelta_days_def Let_def
        split: option.splits)

subsection \<open>Targeting scores\<close>

text \<open>
  Every score is at most 100, since each is a \<^verbatim>\<open>min(100, ...)\<close>. Nothing bounds a score from
  below: three of them are sums of non-negative terms when the post count is not negative,
  and the dispensary score is so when no purchase intent is negative.
\<close>

lemma scores_at_most_100:
  "dispensary_score user cs \<le> 100 \<and> wellness_score cs \<le> 100 \<and>
   premium_score user cs \<le> 100 \<and> accessory_score user \<le> 100"
  by (simp add: dispensary_score_def wellness_score_def premium_score_def accessory_score_def)

lemma other_scores_nonneg:
  assumes "0 \<le> post_count user"
  shows "0 \<le> wellness_score cs \<and> 0 \<le> premium_score user cs \<and> 0 \<le> accessory_score user"
  using assms by (simp add: wellness_score_def premium_score_def accessory_score_def)

lemma sum_list_nonneg_int: "(\<And>x. x \<in> set xs \<Longrightarrow> (0::int) \<le> x) \<Longrightarrow> 0 \<le> sum_list xs"
  by (induction xs) auto

lemma purchase_intents_set:
  "x \<in> set (purchase_intents cs) \<Longrightarrow> \<exists>c \<in> set cs. purchase_intent c = Some x"
  by (auto simp: purchase_intents_def)

lemma avg_purchase_intent_nonneg:
  assumes "\<And>c v. c \<in> set cs \<Longrightarrow> purchase_intent c = Some v \<Longrightarrow> 0 \<le> v"
  shows "0 \<le> avg_purchase_intent cs"
proof -
  have "0 \<le> sum_list (purchase_intents cs)"
    using assms by (intro sum_list_nonneg_int) (auto dest!: purchase_intents_set)
  then show ?thesis
    by (simp add: avg_purchase_intent_def)
qed

lemma dispensary_score_nonneg:
  assumes "0 \<le> post_count user"
    and "\<And>c v. c \<in> set cs \<Longrightarrow> purchase_intent c = Some v \<Longrightarrow> 0 \<le> v"
  shows "0 \<le> dispensary_score user cs"
proof -
  define q where "q = avg_purchase_intent cs * (1 / 2) + of_int (high_intent_count cs * 10)
            + of_int (post_count user * 2)"
  have a: "0 \<le> avg_purchase_intent cs"
    using assms(2) by (rule avg_purchase_intent_nonneg)
  have h: "0 \<le> high_intent_count cs" by (simp add: high_intent_count_def)
  have "0 \<le> q"
    unfolding q_def using a h assms(1) by simp
  then have "0 \<le> py_int q"
    by (simp add: py_int_def)
  then show ?thesis
    unfolding dispensary_score_def q_def by simp
qed

lemma py_int_of_int: "py_int (of_int n) = n"
  by (simp add: py_int_def)

lemma no_values_empty:
  "list_all (\<lambda>c. f c = None) cs \<Longrightarrow> map the (filter (\<lambda>v. v \<noteq> None) (map f cs)) = []"
  by (induction cs) auto

text \<open>
  C1 asks for all four targeting scores of every profile to lie in [0,100], also when a
  purchase intent lies outside 0..100. The source announces the scores as \<^verbatim>\<open>(0-100)\<close> and
  clamps them from above only: one classification with purchase intent -1000 and a post
  count of 1 give \<^verbatim>\<open>min(100, int(-500.0 + 0 + 2))\<close>, a dispensary score of -498.
\<close>

theorem dispensary_score_below_zero:
  "map_sum id p_dispensary_target_score
     (build_user_profile (blank_user ''did:a'' 1)
        [(blank_classification 1 ''v1'') \<lparr> purchase_intent := Some (- 1000) \<rparr>]) = Inr (- 498)"
  by (simp add: build_user_profile_def secondary_consumer_type_def blank_user_def
      blank_classification_def dispensary_score_def avg_purchase_intent_def purchase_intents_def
      high_intent_count_def py_int_def)

text \<open>
  C10. When every classification of an author has a null sentiment score, the average
  sentiment of the profile is 0; when every purchase intent is null, the average purchase
  intent and the number of high-intent posts are 0, and the dispensary score is
  \<^verbatim>\<open>min(100, 2 * post_count)\<close>.
\<close>

theorem null_scores_default_to_zero:
  "(list_all (\<lambda>c. sentiment_score c = None) cs \<longrightarrow>
      avg_sentiment cs = 0 \<and>
      (\<forall>p. build_user_profile user cs = Inr p \<longrightarrow> p_avg_sentiment p = 0)) \<and>
   (list_all (\<lambda>c. purchase_intent c = None) cs \<longrightarrow>
      avg_purchase_intent cs = 0 \<and> high_intent_count cs = 0 \<and>
      dispensary_score user cs = min 100 (2 * post_count user) \<and>
      (\<forall>p. build_user_profile user cs = Inr p \<longrightarrow>
           p_dispensary_target_score p = min 100 (2 * post_count user)))"
proof (intro conjI impI allI)
  assume h: "list_all (\<lambda>c. sentiment_score c = None) cs"
  then have "sentiment_scores cs = []"
    unfolding sentiment_scores_def by (rule no_values_empty)
  then show z: "avg_sentiment cs = 0"
    by (simp add: avg_sentiment_def)
  fix p assume "build_user_profile user cs = Inr p"
  then have "p_avg_sentiment p = py_round (avg_sentiment cs) 2"
    by (auto simp: build_user_profile_def split: sum.splits)
  then show "p_avg_sentiment p = 0"
    using z by (simp add: py_round_def round_half_even_def)
next
  assume h: "list_all (\<lambda>c. purchase_intent c = None) cs"
  then have e: "purchase_intents cs = []"
    unfolding purchase_intents_def by (rule no_values_empty)
  show a: "avg_purchase_intent cs = 0" using e by (simp add: avg_purchase_intent_def)
  show c: "high_intent_count cs = 0" using e by (simp add: high_intent_count_def)
  have "avg_purchase_intent cs * (1 / 2) + of_int (high_intent_count cs * 10)
          + of_int (post_count user * 2) = (of_int (2 * post_count user) :: rat)"
    using a c by simp
  then show d: "dispensary_score user cs = min 100 (2 * post_count user)"
    unfolding dispensary_score_def by (simp only: py_int_of_int)
  fix p assume "build_user_profile user cs = Inr p"
  then have "p_dispensary_target_score p = dispensary_score user cs"
    by (auto simp: build_user_profile_def split: sum.splits)
  then show "p_dispensary_target_score p = min 100 (2 * post_count user)" using d by simp
qed

theorem null_scores_default_to_zero_witness:
  "list_all (\<lambda>c. sentiment_score c = None) [blank_classification 1 ''v1''] \<and>
   list_all (\<lambda>c. purchase_intent c = None) [blank_classification 1 ''v1''] \<and>
   map_sum id p_avg_sentiment
     (build_user_profile (blank_user ''did:a'' 3) [blank_classification 1 ''v1'']) = Inr 0 \<and>
   map_sum id p_dispensary_target_score
     (build_user_profile (blank_user ''did:a'' 3) [blank_classification 1 ''v1'']) = Inr 6 \<and>
   map_sum id p_dispensary_target_score
     (build_user_profile (blank_user ''did:a'' 70) [blank_classification 1 ''v1'']) = Inr 100"
  using null_scores_default_to_zero [of "[blank_classification 1 ''v1'']" "blank_user ''did:a'' 3"]
    null_scores_default_to_zero [of "[blank_classification 1 ''v1'']" "blank_user ''did:a'' 70"]
  by (simp add: build_user_profile_def secondary_consumer_type_def blank_user_def
      blank_classification_def)

subsection \<open>Consumer types\<close>

text \<open>
  C2 asks for the secondary consumer type to be null, and no error, when fewer than two
  distinct values are left after nulls and \<open>unknown\<close> are dropped. The source guards the
  index 1 of the ranking by the number of distinct raw values: for
  \<^verbatim>\<open>['wellness', 'unknown']\<close> the guard holds, the ranking has one entry, and
  \<^verbatim>\<open>most_common(2)[1]\<close> raises \<^verbatim>\<open>IndexError\<close>, so that no profile is built.
\<close>

theorem secondary_consumer_type_index_error:
  "secondary_consumer_type [Some ''wellness'', Some ''unknown''] = Inl IndexError \<and>
   build_user_profile (blank_user ''did:a'' 2)
     [(blank_classification 1 ''v1'') \<lparr> consumer_type := Some ''wellness'' \<rparr>,
      (blank_classification 2 ''v1'') \<lparr> consumer_type := Some ''unknown'' \<rparr>] = Inl IndexError"
  by (simp add: build_user_profile_def secondary_consumer_type_def truthy_str_def Counter_def
      Counter_most_common_def blank_classification_def)

subsection \<open>Counting the posts of an author\<close>

text \<open>
  C8 asks for \<^verbatim>\<open>posts_analyzed\<close> to count each classified post once, also when it has rows
  under several model versions, and for \<^verbatim>\<open>min_posts\<close> to bound that count. The query counts
  the rows of the join: one post classified under two model versions is selected for
  \<^verbatim>\<open>min_posts = 2\<close> and its author's profile says 2 posts analyzed, where 1 post is
  classified.
\<close>

theorem post_count_counts_classification_rows:
  "map post_count (get_users_with_posts [blank_post 1 ''at://a/1'' ''did:a'']
      [blank_classification 1 ''v1'', blank_classification 1 ''v2''] 2) = [2] \<and>
   map (\<lambda>u. map_sum id p_posts_analyzed
          (build_user_profile u
             (get_user_classifications [blank_post 1 ''at://a/1'' ''did:a'']
                [blank_classification 1 ''v1'', blank_classification 1 ''v2''] (u_author_did u))))
     (get_users_with_posts [blank_post 1 ''at://a/1'' ''did:a'']
        [blank_classification 1 ''v1'', blank_classification 1 ''v2''] 2) = [Inr 2] \<and>
   distinct_classified_posts [blank_post 1 ''at://a/1'' ''did:a'']
      [blank_classification 1 ''v1'', blank_classification 1 ''v2''] ''did:a'' = 1"
  by (simp add: get_users_with_posts_def user_group_def joined_def blank_post_def
      blank_classification_def distinct_classified_posts_def build_user_profile_def
      secondary_consumer_type_def get_user_classifications_def order_by_created_desc_def)

section \<open>Properties of the SyncService\<close>

lemma upsert_post_conflict_rows:
  assumes "distinct (map uri rows)" and "p \<in> set rows" and "uri p = v_uri v"
  shows "upsert_post dv rows v = map (\<lambda>q. if q = p then on_conflict_update p v else q) rows"
proof -
  have in_tab: "v_uri v \<in> set (map uri rows)"
    using assms(2,3) by force
  have "\<And>q. q \<in> set rows \<Longrightarrow> (uri q = v_uri v) = (q = p)"
    using assms by (metis distinct_map inj_onD)
  then have "map (\<lambda>q. if uri q = v_uri v then on_conflict_update q v else q) rows
           = map (\<lambda>q. if q = p then on_conflict_update p v else q) rows"
    by (intro map_cong) auto
  then show ?thesis
    using in_tab by (simp add: upsert_post_def)
qed

lemma sync_frame_update: "sync_frame (on_conflict_update p v) = sync_frame p"
  by (simp add: sync_frame_def on_conflict_update_def)

lemma upsert_post_frame:
  "map sync_frame (take (length rows) (upsert_post dv rows v)) = map sync_frame rows"
  by (simp add: upsert_post_def sync_frame_update comp_def)

lemma upsert_post_length: "length rows \<le> length (upsert_post dv rows v)"
  by (simp add: upsert_post_def)

lemma sync_upsert_length: "length rows \<le> length (sync_upsert dv rows vs)"
proof (induction vs arbitrary: rows)
  case Nil
  then show ?case by (simp add: sync_upsert_def)
next
  case (Cons v vs)
  have "length rows \<le> length (upsert_post dv rows v)" by (rule upsert_post_length)
  also have "\<dots> \<le> length (sync_upsert dv (upsert_post dv rows v) vs)" by (rule Cons.IH)
  finally show ?case by (simp add: sync_upsert_def)
qed

lemma sync_upsert_frame:
  "map sync_frame (take (length rows) (sync_upsert dv rows vs)) = map sync_frame rows"
proof (induction vs arbitrary: rows)
  case Nil
  then show ?case by (simp add: sync_upsert_def)
next
  case (Cons v vs)
  let ?rows' = "upsert_post dv rows v"
  have step: "sync_upsert dv rows (v # vs) = sync_upsert dv ?rows' vs"
    by (simp add: sync_upsert_def)
  have le: "length rows \<le> length ?rows'" by (rule upsert_post_length)
  have "map sync_frame (take (length rows) (sync_upsert dv ?rows' vs))
        = take (length rows) (map sync_frame (take (length ?rows') (sync_upsert dv ?rows' vs)))"
    using le by (simp add: take_map min_def)
  also have "\<dots> = take (length rows) (map sync_frame ?rows')"
    by (simp only: Cons.IH)
  also have "\<dots> = map sync_frame (take (length rows) ?rows')"
    by (simp add: take_map)
  also have "\<dots> = map sync_frame rows"
    by (rule upsert_post_frame)
  finally show ?case by (simp only: step)
qed

text \<open>
  C3 asks that on a conflict on \<^verbatim>\<open>uri\<close> each of \<^verbatim>\<open>text_content\<close>, \<^verbatim>\<open>facets\<close>, \<^verbatim>\<open>langs\<close>,
  \<^verbatim>\<open>has_media\<close> and \<^verbatim>\<open>embed_type\<close> be overwritten only by a non-null incoming value. The
  upsert wraps the first three in \<^verbatim>\<open>COALESCE\<close> and assigns the last two as they come: a
  post stored with embed type \<open>images\<close> that comes again with a null embed type is left
  with a null embed type.
\<close>

theorem null_embed_type_overwrites:
  "map embed_type
     (upsert_post None [(blank_post 1 ''at://a/1'' ''did:a'') \<lparr> embed_type := Some ''images'' \<rparr>]
        (blank_values ''at://a/1'' ''did:a'' 0)) = [None] \<and>
   v_embed_type (blank_values ''at://a/1'' ''did:a'' 0) = None"
  by (simp add: upsert_post_def on_conflict_update_def blank_post_def blank_values_def)

text \<open>
  C3, as the upsert does it. When an incoming tuple conflicts on \<^verbatim>\<open>uri\<close> with a stored post
  (uris being unique in the table), the stored row is replaced by itself with
  \<^verbatim>\<open>text_content\<close>, \<^verbatim>\<open>facets\<close> and \<^verbatim>\<open>langs\<close> overwritten when the incoming value is not
  null and kept otherwise, and \<^verbatim>\<open>has_media\<close> and \<^verbatim>\<open>embed_type\<close> set to the incoming value
  (which for \<^verbatim>\<open>has_media\<close> is never null, and for \<^verbatim>\<open>embed_type\<close> may be); no other column
  and no other row changes. A whole sync leaves \<^verbatim>\<open>processed_at\<close> and
  \<^verbatim>\<open>classification_version\<close> of every stored post as they were.
\<close>

theorem sync_upsert_on_conflict:
  "(distinct (map uri rows) \<and> p \<in> set rows \<and> uri p = v_uri v \<longrightarrow>
      upsert_post dv rows v =
        map (\<lambda>q. if q = p
                  then p \<lparr> text_content :=
                             (case v_text_content v of None \<Rightarrow> text_content p | Some x \<Rightarrow> Some x),
                           facets := (case v_facets v of None \<Rightarrow> facets p | Some x \<Rightarrow> Some x),
                           langs := (case v_langs v of None \<Rightarrow> langs p | Some x \<Rightarrow> Some x),
                           has_media := Some (v_has_media v),
                           embed_type := v_embed_type v \<rparr>
                  else q) rows) \<and>
   map processed_at (take (length rows) (sync_upsert dv rows vs)) = map processed_at rows \<and>
   map classification_version (take (length rows) (sync_upsert dv rows vs))
     = map classification_version rows"
proof (intro conjI impI)
  assume "distinct (map uri rows) \<and> p \<in> set rows \<and> uri p = v_uri v"
  then have "upsert_post dv rows v = map (\<lambda>q. if q = p then on_conflict_update p v else q) rows"
    by (intro upsert_post_conflict_rows) auto
  then show "upsert_post dv rows v =
        map (\<lambda>q. if q = p
                  then p \<lparr> text_content :=
                             (case v_text_content v of None \<Rightarrow> text_content p | Some x \<Rightarrow> Some x),
                           facets := (case v_facets v of None \<Rightarrow> facets p | Some x \<Rightarrow> Some x),
                           langs := (case v_langs v of None \<Rightarrow> langs p | Some x \<Rightarrow> Some x),
                           has_media := Some (v_has_media v),
                           embed_type := v_embed_type v \<rparr>
                  else q) rows"
    by (simp add: on_conflict_update_def coalesce_def)
next
  have f: "map sync_frame (take (length rows) (sync_upsert dv rows vs)) = map sync_frame rows"
    by (rule sync_upsert_frame)
  have "map (processed_at \<circ> sync_frame) (take (length rows) (sync_upsert dv rows vs))
        = map (processed_at \<circ> sync_frame) rows"
    using f by (metis map_map)
  then show "map processed_at (take (length rows) (sync_upsert dv rows vs)) = map processed_at rows"
    by (simp add: sync_frame_def comp_def)
  have "map (classification_version \<circ> sync_frame) (take (length rows) (sync_upsert dv rows vs))
        = map (classification_version \<circ> sync_frame) rows"
    using f by (metis map_map)
  then show "map classification_version (take (length rows) (sync_upsert dv rows vs))
     = map classification_version rows"
    by (simp add: sync_frame_def comp_def)
qed

theorem sync_upsert_on_conflict_witness:
  "distinct (map uri [(blank_post 1 ''at://a/1'' ''did:a'')
                        \<lparr> text_content := Some ''hello'', embed_type := Some ''images'',
                          has_media := Some True, processed_at := Some 5,
                          classification_version := Some 1 \<rparr>]) \<and>
   upsert_post None [(blank_post 1 ''at://a/1'' ''did:a'')
                        \<lparr> text_content := Some ''hello'', embed_type := Some ''images'',
                          has_media := Some True, processed_at := Some 5,
                          classification_version := Some 1 \<rparr>]
     (blank_values ''at://a/1'' ''did:a'' 0)
   = [(blank_post 1 ''at://a/1'' ''did:a'')
        \<lparr> text_content := Some ''hello'', embed_type := None,
          has_media := Some False, processed_at := Some 5,
          classification_version := Some 1 \<rparr>]"
  using sync_upsert_on_conflict [of
      "[(blank_post 1 ''at://a/1'' ''did:a'')
                        \<lparr> text_content := Some ''hello'', embed_type := Some ''images'',
                          has_media := Some True, processed_at := Some 5,
                          classification_version := Some 1 \<rparr>]"
      "(blank_post 1 ''at://a/1'' ''did:a'')
                        \<lparr> text_content := Some ''hello'', embed_type := Some ''images'',
                          has_media := Some True, processed_at := Some 5,
                          classification_version := Some 1 \<rparr>"
      "blank_values ''at://a/1'' ''did:a'' 0" None "[]"]
  by (simp add: blank_post_def blank_values_def)

section \<open>Properties of the ClassificationEngine\<close>

subsection \<open>What a save writes to the post\<close>

lemma mark_processed_columns:
  "map processed_at (mark_processed now i rows)
     = map (\<lambda>p. if pid p = i then Some now else processed_at p) rows \<and>
   map classification_version (mark_processed now i rows)
     = map (\<lambda>p. if pid p = i then Some 1 else classification_version p) rows \<and>
   map unclassified_part (mark_processed now i rows) = map unclassified_part rows"
  by (simp add: mark_processed_def unclassified_part_def comp_def)

text \<open>
  C4 asks that a successful classification set \<^verbatim>\<open>processed_at\<close> to the current time and
  increment \<^verbatim>\<open>classification_version\<close>, so that the k-th classification of a post leaves
  version k. The update assigns the constant 1: a post saved twice has version 1 after the
  first save and after the second, and a post stored with version 7 has version 1 after a
  save.
\<close>

theorem classification_version_stays_1:
  "map classification_version
     (posts (save_classification json_dumps Some 200 1 [(''sentiment'', PStr ''negative'')]
        (save_classification json_dumps Some 100 1 [(''sentiment'', PStr ''positive'')]
           \<lparr> posts = [text_post 1 ''hello'' 0], post_classifications = [] \<rparr>))) = [Some 1] \<and>
   map classification_version
     (posts (save_classification json_dumps Some 100 1 [(''sentiment'', PStr ''positive'')]
           \<lparr> posts = [text_post 1 ''hello'' 0], post_classifications = [] \<rparr>)) = [Some 1] \<and>
   map classification_version
     (posts (save_classification json_dumps Some 100 1 [(''sentiment'', PStr ''positive'')]
           \<lparr> posts = [(text_post 1 ''hello'' 0) \<lparr> classification_version := Some 7 \<rparr>],
             post_classifications = [] \<rparr>)) = [Some 1]"
  by (simp add: save_classification_def mark_processed_def text_post_def blank_post_def)

text \<open>
  C4, as the update does it. \<^verbatim>\<open>save_classification\<close> sets \<^verbatim>\<open>processed_at\<close> of the post to
  the current time and its \<^verbatim>\<open>classification_version\<close> to 1, whatever it was; the other
  columns of the post and the other posts are unchanged.
\<close>

theorem save_classification_marks_post:
  "map processed_at (posts (save_classification dumps cd now i c d))
     = map (\<lambda>p. if pid p = i then Some now else processed_at p) (posts d) \<and>
   map classification_version (posts (save_classification dumps cd now i c d))
     = map (\<lambda>p. if pid p = i then Some 1 else classification_version p) (posts d) \<and>
   map unclassified_part (posts (save_classification dumps cd now i c d))
     = map unclassified_part (posts d)"
  using mark_processed_columns [of now i "posts d"]
  by (simp add: save_classification_def)

subsection \<open>Saving under a model version that has a row\<close>

lemma upsert_conflict_semantic:
  assumes "list_ex (\<lambda>r. pc_conflict r new) rows"
  shows "map semantic_part (upsert_classification now rows new) = map semantic_part rows"
  using assms by (simp add: upsert_classification_def semantic_part_def comp_def)

lemma upsert_conflict_rows:
  assumes "list_ex (\<lambda>r. pc_conflict r new) rows"
  shows "upsert_classification now rows new =
         map (\<lambda>r. if pc_conflict r new
                   then r \<lparr> pc_confidence := pc_confidence new,
                            pc_processing_ms := pc_processing_ms new,
                            pc_classified_at := Some now \<rparr>
                   else r) rows"
  using assms by (simp add: upsert_classification_def)

lemma new_pc_row_key:
  "pc_post_id (new_pc_row dumps cd i c) = i \<and>
   pc_model_version (new_pc_row dumps cd i c) = dict_get c ''model_version'' (PStr MODEL_VERSION) \<and>
   pc_confidence (new_pc_row dumps cd i c) = dict_get c ''confidence'' (PInt 80) \<and>
   pc_processing_ms (new_pc_row dumps cd i c) = dict_get c ''processing_ms'' PNone"
  by (simp add: new_pc_row_def)

text \<open>
  C5. When the table holds a row for a post under a model version, saving another
  classification of that post under that model version rewrites \<^verbatim>\<open>confidence\<close>,
  \<^verbatim>\<open>processing_ms\<close> and \<^verbatim>\<open>classified_at\<close> of that row and nothing else: every other column
  of every row (the semantic columns and the raw response among them) keeps its value,
  and the table has as many rows as before.
\<close>

theorem reclassification_updates_telemetry_only:
  "list_ex (\<lambda>r. pc_post_id r = i \<and>
                 pc_model_version r = dict_get c ''model_version'' (PStr MODEL_VERSION))
     (post_classifications d) \<longrightarrow>
   post_classifications (save_classification dumps cd now i c d) =
     map (\<lambda>r. if pc_post_id r = i \<and>
                  pc_model_version r = dict_get c ''model_version'' (PStr MODEL_VERSION)
               then r \<lparr> pc_confidence := dict_get c ''confidence'' (PInt 80),
                        pc_processing_ms := dict_get c ''processing_ms'' PNone,
                        pc_classified_at := Some now \<rparr>
               else r) (post_classifications d) \<and>
   map semantic_part (post_classifications (save_classification dumps cd now i c d))
     = map semantic_part (post_classifications d) \<and>
   length (post_classifications (save_classification dumps cd now i c d))
     = length (post_classifications d)"
proof
  let ?new = "new_pc_row dumps (cd now) i c"
  assume "list_ex (\<lambda>r. pc_post_id r = i \<and>
                 pc_model_version r = dict_get c ''model_version'' (PStr MODEL_VERSION))
     (post_classifications d)"
  then have ex: "list_ex (\<lambda>r. pc_conflict r ?new) (post_classifications d)"
    by (simp add: pc_conflict_def new_pc_row_key)
  have pcs: "post_classifications (save_classification dumps cd now i c d)
             = upsert_classification now (post_classifications d) ?new"
    by (simp add: save_classification_def)
  have rows: "upsert_classification now (post_classifications d) ?new =
     map (\<lambda>r. if pc_post_id r = i \<and>
                  pc_model_version r = dict_get c ''model_version'' (PStr MODEL_VERSION)
               then r \<lparr> pc_confidence := dict_get c ''confidence'' (PInt 80),
                        pc_processing_ms := dict_get c ''processing_ms'' PNone,
                        pc_classified_at := Some now \<rparr>
               else r) (post_classifications d)"
    using upsert_conflict_rows [OF ex, of now]
    by (simp only: pc_conflict_def new_pc_row_key)
  have sem: "map semantic_part (upsert_classification now (post_classifications d) ?new)
             = map semantic_part (post_classifications d)"
    using ex by (rule upsert_conflict_semantic)
  have len: "length (upsert_classification now (post_classifications d) ?new)
             = length (post_classifications d)"
    using sem by (metis length_map)
  show "post_classifications (save_classification dumps cd now i c d) =
     map (\<lambda>r. if pc_post_id r = i \<and>
                  pc_model_version r = dict_get c ''model_version'' (PStr MODEL_VERSION)
               then r \<lparr> pc_confidence := dict_get c ''confidence'' (PInt 80),
                        pc_processing_ms := dict_get c ''processing_ms'' PNone,
                        pc_classified_at := Some now \<rparr>
               else r) (post_classifications d) \<and>
   map semantic_part (post_classifications (save_classification dumps cd now i c d))
     = map semantic_part (post_classifications d) \<and>
   length (post_classifications (save_classification dumps cd now i c d))
     = length (post_classifications d)"
    using rows sem len by (simp only: pcs simp_thms)
qed

theorem reclassification_updates_telemetry_only_witness:
  "list_ex (\<lambda>r. pc_post_id r = 1 \<and>
                 pc_model_version r
                   = dict_get [(''sentiment'', PStr ''negative''), (''purchase_intent'', PInt 5),
                               (''confidence'', PInt 60), (''processing_ms'', PInt 45),
                               (''model_version'', PStr MODEL_VERSION)]
                       ''model_version'' (PStr MODEL_VERSION))
     (post_classifications
        (save_classification json_dumps Some 100 1
           [(''sentiment'', PStr ''positive''), (''purchase_intent'', PInt 80),
            (''processing_ms'', PInt 120), (''model_version'', PStr MODEL_VERSION)]
           \<lparr> posts = [text_post 1 ''hello'' 0], post_classifications = [] \<rparr>)) \<and>
   map (\<lambda>r. (pc_post_id r, pc_sentiment r, pc_purchase_intent r, pc_confidence r,
              pc_processing_ms r, pc_classified_at r))
     (post_classifications
        (save_classification json_dumps Some 200 1
           [(''sentiment'', PStr ''negative''), (''purchase_intent'', PInt 5),
            (''confidence'', PInt 60), (''processing_ms'', PInt 45),
            (''model_version'', PStr MODEL_VERSION)]
           (save_classification json_dumps Some 100 1
              [(''sentiment'', PStr ''positive''), (''purchase_intent'', PInt 80),
               (''processing_ms'', PInt 120), (''model_version'', PStr MODEL_VERSION)]
              \<lparr> posts = [text_post 1 ''hello'' 0], post_classifications = [] \<rparr>)))
     = [(1, PStr ''positive'', PInt 80, PInt 60, PInt 45, Some 200)]"
  using reclassification_updates_telemetry_only [of 1
      "[(''sentiment'', PStr ''negative''), (''purchase_intent'', PInt 5),
        (''confidence'', PInt 60), (''processing_ms'', PInt 45),
        (''model_version'', PStr MODEL_VERSION)]"
      "save_classification json_dumps Some 100 1
           [(''sentiment'', PStr ''positive''), (''purchase_intent'', PInt 80),
            (''processing_ms'', PInt 120), (''model_version'', PStr MODEL_VERSION)]
           \<lparr> posts = [text_post 1 ''hello'' 0], post_classifications = [] \<rparr>"
      json_dumps Some 200]
  by (simp add: save_classification_def upsert_classification_def new_pc_row_def
      pc_conflict_def dict_get_def)

subsection \<open>A batch\<close>

























subsection \<open>Parsing the classifier's response\<close>

text \<open>
  C7 asks that the engine first parse the response as JSON and, if that fails, parse the
  text from the first \<^verbatim>\<open>{\<close> through the last \<^verbatim>\<open>}\<close>, failing only when both fail.
  \<^verbatim>\<open>classify_post_async\<close> has no second attempt: a response that wraps a JSON object in
  other text is a \<^verbatim>\<open>JSONDecodeError\<close> and the classification fails, although the text
  between the braces parses.
\<close>

theorem no_recovery_pass:
  "json_loads ''Result: {\"sentiment\": \"positive\"}'' = None \<and>
   json_loads (str_slice ''Result: {\"sentiment\": \"positive\"}''
                 (str_find (CHR ''{'') ''Result: {\"sentiment\": \"positive\"}'')
                 (str_rfind (CHR ''}'') ''Result: {\"sentiment\": \"positive\"}'' + 1))
     = Some (PDict [(''sentiment'', PStr ''positive'')]) \<and>
   classify_post_async json_loads (\<lambda>a. ApiContent (Some ''Result: {\"sentiment\": \"positive\"}'') 120)
     (text_post 1 ''hello'' 0) = (1, None, Some JSONDecodeError)"
  by code_simp

text \<open>
  C7, as the code does it. \<^verbatim>\<open>classify_post_async\<close> parses the whole response once: when
  that raises \<^verbatim>\<open>JSONDecodeError\<close> the classification of the post fails, and when it gives
  a JSON object the classification succeeds with that object, \<^verbatim>\<open>processing_ms\<close> and
  \<^verbatim>\<open>model_version\<close>. The legacy \<^verbatim>\<open>extract_insights\<close> parses only the text from the first
  \<^verbatim>\<open>{\<close> through the last \<^verbatim>\<open>}\<close> of the response, when there is one, and never the whole.
\<close>

theorem classification_parses_directly_only:
  "(text_content p = Some text \<and>
    chat \<lparr> a_text = take 2000 text, a_has_media = has_media p, a_embed_type = embed_type p,
           a_langs = langs p, a_created_at = post_created_at p \<rparr> = ApiContent (Some content) ms \<and>
    loads content = None \<longrightarrow>
      classify_post_async loads chat p = (pid p, None, Some JSONDecodeError)) \<and>
   (text_content p = Some text \<and>
    chat \<lparr> a_text = take 2000 text, a_has_media = has_media p, a_embed_type = embed_type p,
           a_langs = langs p, a_created_at = post_created_at p \<rparr> = ApiContent (Some content) ms \<and>
    loads content = Some (PDict result) \<longrightarrow>
      classify_post_async loads chat p
        = (pid p,
           Some (dict_set ''model_version'' (PStr MODEL_VERSION)
                   (dict_set ''processing_ms'' (PInt ms) result)),
           None)) \<and>
   extract_insights loads (HttpReply 200 response)
     = (if 0 \<le> str_find (CHR ''{'') response \<and>
           str_find (CHR ''{'') response < str_rfind (CHR ''}'') response + 1
        then loads (str_slice response (str_find (CHR ''{'') response)
                      (str_rfind (CHR ''}'') response + 1))
        else None)"
  by (simp add: classify_post_async_def extract_insights_def Let_def)

theorem classification_parses_directly_only_witness:
  "json_loads ''Here you go: {\"purchase_intent\": 80}'' = None \<and>
   classify_post_async json_loads (\<lambda>a. ApiContent (Some ''Here you go: {\"purchase_intent\": 80}'') 95)
     (text_post 2 ''hello'' 0) = (2, None, Some JSONDecodeError) \<and>
   json_loads ''{\"purchase_intent\": 80}'' = Some (PDict [(''purchase_intent'', PInt 80)]) \<and>
   classify_post_async json_loads (\<lambda>a. ApiContent (Some ''{\"purchase_intent\": 80}'') 95)
     (text_post 2 ''hello'' 0)
     = (2, Some [(''purchase_intent'', PInt 80), (''processing_ms'', PInt 95),
                 (''model_version'', PStr MODEL_VERSION)], None)"
proof -
  have a: "json_loads ''Here you go: {\"purchase_intent\": 80}'' = None"
    by code_simp
  have b: "json_loads ''{\"purchase_intent\": 80}'' = Some (PDict [(''purchase_intent'', PInt 80)])"
    by code_simp
  have p: "text_content (text_post 2 ''hello'' 0) = Some ''hello'' \<and> pid (text_post 2 ''hello'' 0) = 2"
    by (simp add: text_post_def blank_post_def)
  show ?thesis
    using a b p
      classification_parses_directly_only [of "text_post 2 ''hello'' 0" "''hello''"
        "\<lambda>a. ApiContent (Some ''Here you go: {\"purchase_intent\": 80}'') 95"
        "''Here you go: {\"purchase_intent\": 80}''" 95 json_loads]
      classification_parses_directly_only [of "text_post 2 ''hello'' 0" "''hello''"
        "\<lambda>a. ApiContent (Some ''{\"purchase_intent\": 80}'') 95"
        "''{\"purchase_intent\": 80}''" 95 json_loads "[(''purchase_intent'', PInt 80)]"]
    by simp
qed

end
